theory Spec2Isabelle
  imports Complex_Main
begin

section \<open>Numbers\<close>

text \<open>
  The arrays of \<^verbatim>\<open>olmar.py\<close> hold numpy floats. Rounding and overflow are not
  modelled: a finite float is a \<^typ>\<open>real\<close>. The special values that numpy produces from
  finite arguments (the mean of an empty array, a division by zero) are kept, with the
  IEEE rules for propagating them; the sign of a zero is not kept, so a zero divisor
  counts as positive.
\<close>

datatype npfloat = Fin real | PInf | NInf | NaN

fun np_neg :: "npfloat \<Rightarrow> npfloat" where
  "np_neg (Fin a) = Fin (- a)"
| "np_neg PInf = NInf"
| "np_neg NInf = PInf"
| "np_neg NaN = NaN"

fun np_add :: "npfloat \<Rightarrow> npfloat \<Rightarrow> npfloat" where
  "np_add (Fin a) (Fin b) = Fin (a + b)"
| "np_add NaN _ = NaN"
| "np_add _ NaN = NaN"
| "np_add PInf NInf = NaN"
| "np_add NInf PInf = NaN"
| "np_add PInf _ = PInf"
| "np_add _ PInf = PInf"
| "np_add NInf _ = NInf"
| "np_add _ NInf = NInf"

definition np_sub :: "npfloat \<Rightarrow> npfloat \<Rightarrow> npfloat" where
  "np_sub x y = np_add x (np_neg y)"

fun np_mul :: "npfloat \<Rightarrow> npfloat \<Rightarrow> npfloat" where
  "np_mul (Fin a) (Fin b) = Fin (a * b)"
| "np_mul NaN _ = NaN"
| "np_mul _ NaN = NaN"
| "np_mul (Fin a) PInf = (if a = 0 then NaN else if 0 < a then PInf else NInf)"
| "np_mul (Fin a) NInf = (if a = 0 then NaN else if 0 < a then NInf else PInf)"
| "np_mul PInf (Fin b) = (if b = 0 then NaN else if 0 < b then PInf else NInf)"
| "np_mul NInf (Fin b) = (if b = 0 then NaN else if 0 < b then NInf else PInf)"
| "np_mul PInf PInf = PInf"
| "np_mul PInf NInf = NInf"
| "np_mul NInf PInf = NInf"
| "np_mul NInf NInf = PInf"

fun np_div :: "npfloat \<Rightarrow> npfloat \<Rightarrow> npfloat" where
  "np_div (Fin a) (Fin b) =
     (if b = 0 then (if a = 0 then NaN else if 0 < a then PInf else NInf)
      else Fin (a / b))"
| "np_div NaN _ = NaN"
| "np_div _ NaN = NaN"
| "np_div (Fin a) PInf = Fin 0"
| "np_div (Fin a) NInf = Fin 0"
| "np_div PInf (Fin b) = (if 0 \<le> b then PInf else NInf)"
| "np_div NInf (Fin b) = (if 0 \<le> b then NInf else PInf)"
| "np_div PInf PInf = NaN"
| "np_div PInf NInf = NaN"
| "np_div NInf PInf = NaN"
| "np_div NInf NInf = NaN"

fun np_abs :: "npfloat \<Rightarrow> npfloat" where
  "np_abs (Fin a) = Fin \<bar>a\<bar>"
| "np_abs PInf = PInf"
| "np_abs NInf = PInf"
| "np_abs NaN = NaN"

fun np_sqrt :: "npfloat \<Rightarrow> npfloat" where
  "np_sqrt (Fin a) = (if a < 0 then NaN else Fin (sqrt a))"
| "np_sqrt PInf = PInf"
| "np_sqrt NInf = NaN"
| "np_sqrt NaN = NaN"

text \<open>Comparisons: every comparison with NaN is false.\<close>

fun np_less :: "npfloat \<Rightarrow> npfloat \<Rightarrow> bool" where
  "np_less (Fin a) (Fin b) = (a < b)"
| "np_less NaN _ = False"
| "np_less _ NaN = False"
| "np_less _ NInf = False"
| "np_less PInf _ = False"
| "np_less NInf _ = True"
| "np_less _ PInf = True"

definition np_eq :: "npfloat \<Rightarrow> npfloat \<Rightarrow> bool" where
  "np_eq x y = (x \<noteq> NaN \<and> x = y)"

text \<open>
  Python's \<^verbatim>\<open>max(a, b)\<close> keeps \<^verbatim>\<open>a\<close> unless \<^verbatim>\<open>b > a\<close>, and
  \<^verbatim>\<open>min(a, b)\<close> keeps \<^verbatim>\<open>a\<close> unless \<^verbatim>\<open>b < a\<close>.
\<close>

definition py_max :: "npfloat \<Rightarrow> npfloat \<Rightarrow> npfloat" where
  "py_max x y = (if np_less x y then y else x)"

definition py_min :: "npfloat \<Rightarrow> npfloat \<Rightarrow> npfloat" where
  "py_min x y = (if np_less y x then y else x)"

text \<open>\<^verbatim>\<open>math.pow(x, 2)\<close>.\<close>

definition pow2 :: "npfloat \<Rightarrow> npfloat" where
  "pow2 x = np_mul x x"

text \<open>Sums, means, norms and the dot product of one-dimensional arrays.\<close>

definition np_sum :: "npfloat list \<Rightarrow> npfloat" where
  "np_sum xs = foldr np_add xs (Fin 0)"

text \<open>
  \<^verbatim>\<open>np.mean\<close> of an empty array is \<^verbatim>\<open>0.0 / 0\<close>, that is NaN. numpy rounds the sum
  and the quotient, and the mean of the model is the exact one: the two can differ in the
  last bits (the numpy mean of three doubles 0.8 is 0.8000000000000002), and a test for
  equality such as \<^verbatim>\<open>l2_norm == 0\<close> of line 105 can then come out differently. What
  is proved below about the step size is therefore proved for every finite value of the
  mean, and no theorem says for which prices the test of line 105 succeeds.
\<close>

definition np_mean :: "npfloat list \<Rightarrow> npfloat" where
  "np_mean xs = np_div (np_sum xs) (Fin (real (length xs)))"

text \<open>\<^verbatim>\<open>np.linalg.norm(v, ord=1)\<close> and \<^verbatim>\<open>np.linalg.norm(v, ord=2)\<close>.\<close>

definition norm1 :: "npfloat list \<Rightarrow> npfloat" where
  "norm1 v = np_sum (map np_abs v)"

definition norm2 :: "npfloat list \<Rightarrow> npfloat" where
  "norm2 v = np_sqrt (np_sum (map (\<lambda>x. np_mul (np_abs x) (np_abs x)) v))"

definition np_dot :: "npfloat list \<Rightarrow> npfloat list \<Rightarrow> npfloat" where
  "np_dot u v = np_sum (map2 np_mul u v)"

text \<open>\<^verbatim>\<open>np.mean(m, axis=0)\<close>: the mean of every column of a two-dimensional array.\<close>

definition np_mean_axis0 :: "real list list \<Rightarrow> npfloat list" where
  "np_mean_axis0 m = map (\<lambda>c. np_mean (map Fin c)) (transpose m)"

section \<open>Errors and Python indexing\<close>

datatype error = Exception string | IndexError | KeyError | ValueError

text \<open>
  \<^verbatim>\<open>m[day, :]\<close>: a negative index counts from the end, an index out of range raises
  IndexError.
\<close>

definition py_getitem :: "'a list \<Rightarrow> int \<Rightarrow> error + 'a" where
  "py_getitem xs i =
     (if 0 \<le> i \<and> i < int (length xs) then Inr (xs ! nat i)
      else if i < 0 \<and> - int (length xs) \<le> i then Inr (xs ! nat (int (length xs) + i))
      else Inl IndexError)"

text \<open>
  A slice bound: a negative bound counts from the end, and the result is clipped to the
  array.
\<close>

definition slice_bound :: "nat \<Rightarrow> int \<Rightarrow> nat" where
  "slice_bound n i =
     (let j = (if i < 0 then int n + i else i)
      in if j < 0 then 0 else if int n < j then n else nat j)"

text \<open>\<^verbatim>\<open>m[lo:hi, :]\<close> and \<^verbatim>\<open>m[lo:, :]\<close>.\<close>

definition py_slice :: "'a list \<Rightarrow> int \<Rightarrow> int \<Rightarrow> 'a list" where
  "py_slice xs lo hi =
     (let l = slice_bound (length xs) lo; h = slice_bound (length xs) hi
      in take (h - l) (drop l xs))"

definition py_slice_from :: "'a list \<Rightarrow> int \<Rightarrow> 'a list" where
  "py_slice_from xs lo = drop (slice_bound (length xs) lo) xs"

text \<open>\<^verbatim>\<open>a[idxs]\<close> with an array of indices: an index out of range raises IndexError.\<close>

fun py_take :: "'a list \<Rightarrow> nat list \<Rightarrow> error + 'a list" where
  "py_take xs [] = Inr []"
| "py_take xs (i # is) =
     (if length xs \<le> i then Inl IndexError
      else case py_take xs is of Inl e \<Rightarrow> Inl e | Inr ys \<Rightarrow> Inr (xs ! i # ys))"

section \<open>The data model\<close>

text \<open>
  The market data: the open and the close prices, one row per day and one column per
  asset, as \<^verbatim>\<open>get_op(relative=False)\<close> and \<^verbatim>\<open>get_cl(relative=False)\<close> return them.
  The class itself is not part of \<^verbatim>\<open>olmar.py\<close>; only these two arrays are read.
  Prices, allocations and epsilon are finite numbers: a missing price (a NaN in the
  data) is not modelled.
\<close>

record market_data =
  get_op :: "real list list"
  get_cl :: "real list list"

text \<open>
  The state that the base class \<^verbatim>\<open>Portfolio\<close> owns and \<^verbatim>\<open>olmar.py\<close> reads: the
  market data of the live and of the training period, the current allocation, the
  history of the allocations (one allocation per day, the columns of
  \<^verbatim>\<open>b_history\<close>) and the number of assets.
\<close>

record portfolio =
  data :: market_data
  data_train :: "market_data option"
  b :: "real list"
  b_history :: "real list list"
  num_stocks :: nat

text \<open>The fields that \<^verbatim>\<open>OLMAR.__init__\<close> sets.\<close>

record olmar = portfolio +
  portfolio_type :: string
  window :: int
  eps :: real
  window_hist :: "int list"
  eps_hist :: "real list"
  window_range :: "int list"
  eps_range :: "real list"
  new_results_dir :: "string option"

section \<open>The helpers of \<^verbatim>\<open>util\<close>\<close>

text \<open>
  Modelled from the spec: \<^verbatim>\<open>util.get_avail_stocks\<close> is not part of \<^verbatim>\<open>olmar.py\<close>.
  The availability mask is derived from the opening prices of the day; an asset is
  unavailable when its open price is non-positive.
\<close>

definition get_avail_stocks :: "real list \<Rightarrow> bool list" where
  "get_avail_stocks today_op = map (\<lambda>p. 0 < p) today_op"

text \<open>
  Modelled from the spec: \<^verbatim>\<open>util.get_available_inds\<close> is not part of \<^verbatim>\<open>olmar.py\<close>.
  The indices of the available assets, in the order of the assets.
\<close>

definition get_available_inds :: "bool list \<Rightarrow> nat list" where
  "get_available_inds avail_stocks = filter (\<lambda>i. avail_stocks ! i) [0..<length avail_stocks]"

text \<open>
  Modelled from the spec: \<^verbatim>\<open>util.silent_divide\<close> is not part of \<^verbatim>\<open>olmar.py\<close>.
  The elementwise quotient, with zero for the assets whose opening price is zero or
  unavailable.
\<close>

definition silent_divide :: "npfloat list \<Rightarrow> real list \<Rightarrow> npfloat list" where
  "silent_divide xs ys = map2 (\<lambda>x y. if 0 < y then np_div x (Fin y) else Fin 0) xs ys"

text \<open>
  Modelled from the spec: \<^verbatim>\<open>util.get_uniform_allocation\<close> is not part of
  \<^verbatim>\<open>olmar.py\<close>. The uniform allocation over the available assets: an unavailable asset
  has weight zero, the available ones share the weight 1 equally.
\<close>

definition get_uniform_allocation :: "nat \<Rightarrow> real list \<Rightarrow> npfloat list" where
  "get_uniform_allocation n cur_day_op =
     (let avail_stocks = get_avail_stocks cur_day_op;
          num_avail = length (filter (\<lambda>a. a) avail_stocks)
      in map (\<lambda>a. if a then np_div (Fin 1) (Fin (real num_avail)) else Fin 0) avail_stocks)"

section \<open>The window extractor and the predictor\<close>

text \<open>
  \<^verbatim>\<open>get_window_prices\<close>, lines 57 to 75. The source's first branch is taken when
  \<^verbatim>\<open>self.data_train is None or day >= window\<close>: it appears twice below, once for each
  disjunct, so that the training data is in scope in the second branch.
\<close>

definition get_window_prices ::
  "olmar \<Rightarrow> int \<Rightarrow> int \<Rightarrow> error + (int \<times> real list list \<times> real list)" where
  "get_window_prices self day win =
     (case py_getitem (get_op (data self)) day of
        Inl e \<Rightarrow> Inl e
      | Inr today_op \<Rightarrow>
          (case data_train self of
             None \<Rightarrow>
               (let win' = (if day < win then day else win);
                    window_cl = py_slice (get_cl (data self)) (day - win') day
                in Inr (win', window_cl, today_op))
           | Some train \<Rightarrow>
               if win \<le> day then
                 (let win' = (if day < win then day else win);
                      window_cl = py_slice (get_cl (data self)) (day - win') day
                  in Inr (win', window_cl, today_op))
               else
                 (let window_start = day - win;
                      window_stop = day
                  in if window_stop = 0 then
                       Inr (win, py_slice_from (get_cl train) window_start, today_op)
                     else
                       (let window_cl_past = py_slice_from (get_cl train) window_start;
                            window_cl_cur = py_slice (get_cl (data self)) 0 day
                        in Inr (win, window_cl_past @ window_cl_cur, today_op)))))"

text \<open>\<^verbatim>\<open>predict_price_relatives\<close>, lines 93 to 98.\<close>

definition predict_price_relatives :: "olmar \<Rightarrow> int \<Rightarrow> error + npfloat list" where
  "predict_price_relatives self day =
     (case get_window_prices self day (window self) of
        Inl e \<Rightarrow> Inl e
      | Inr (win, window_cl, today_op) \<Rightarrow>
          (let window_prices = window_cl @ [today_op];
               avg_prices = np_mean_axis0 window_prices;
               price_rel = silent_divide avg_prices today_op
           in Inr price_rel))"

section \<open>The allocation projector\<close>

text \<open>
  \<^verbatim>\<open>compute_lambda\<close>, lines 101 and 102: the 2-norm of the distance between the
  predicted price relatives of the available assets and their mean.
\<close>

definition ppr_l2_norm :: "npfloat list \<Rightarrow> npfloat \<Rightarrow> npfloat" where
  "ppr_l2_norm ppr_avail mean_ppr =
     (let num_avail_stocks = length ppr_avail
      in norm2 (map2 np_sub ppr_avail
                  (map (np_mul mean_ppr) (replicate num_avail_stocks (Fin 1)))))"

text \<open>
  \<^verbatim>\<open>compute_lambda\<close>, lines 100 to 111. \<^verbatim>\<open>np.dot\<close> raises ValueError when the two
  arrays differ in length.
\<close>

definition compute_lambda ::
  "olmar \<Rightarrow> npfloat list \<Rightarrow> npfloat \<Rightarrow> nat list \<Rightarrow> error + npfloat" where
  "compute_lambda self ppr_avail mean_ppr avail_idxs =
     (let l2_norm = ppr_l2_norm ppr_avail mean_ppr
      in if np_eq l2_norm (Fin 0) then Inr (Fin 0)
         else
           (case py_take (b self) avail_idxs of
              Inl e \<Rightarrow> Inl e
            | Inr avail_b \<Rightarrow>
                if length avail_b \<noteq> length ppr_avail then Inl ValueError
                else
                  (let predicted_under_eps =
                         np_sub (Fin (eps self)) (np_dot (map Fin avail_b) ppr_avail)
                   in Inr (py_max (Fin 0) (np_div predicted_under_eps (pow2 l2_norm))))))"

text \<open>
  The loop of \<^verbatim>\<open>get_new_allocation\<close>, lines 146 to 149, over the indices of
  \<^verbatim>\<open>new_b\<close>: reading \<^verbatim>\<open>predicted_price_rel[i]\<close> or \<^verbatim>\<open>self.b[i]\<close> out of range
  raises IndexError.
\<close>

fun update_loop ::
  "real list \<Rightarrow> npfloat list \<Rightarrow> npfloat \<Rightarrow> npfloat \<Rightarrow> nat list \<Rightarrow> npfloat list
     \<Rightarrow> error + npfloat list" where
  "update_loop cur_b predicted_price_rel mean_price_rel lam [] new_b = Inr new_b"
| "update_loop cur_b predicted_price_rel mean_price_rel lam (i # is) new_b =
     (if length predicted_price_rel \<le> i then Inl IndexError
      else
        (let ppr = predicted_price_rel ! i
         in if np_less (Fin 0) ppr then
              (if length cur_b \<le> i then Inl IndexError
               else update_loop cur_b predicted_price_rel mean_price_rel lam is
                      (new_b[i := np_add (Fin (cur_b ! i))
                                   (np_mul lam (np_sub ppr mean_price_rel))]))
            else update_loop cur_b predicted_price_rel mean_price_rel lam is new_b))"

text \<open>
  \<^verbatim>\<open>get_new_allocation\<close>, lines 129 to 149: the part after the special case of the
  initialisation and before the normalisation. It returns the local variables
  \<^verbatim>\<open>predicted_price_rel\<close>, \<^verbatim>\<open>ppr_avail\<close>, \<^verbatim>\<open>mean_price_rel\<close>, \<^verbatim>\<open>lam\<close> (after the cap
  of line 142) and \<^verbatim>\<open>new_b\<close>, the allocation before it is normalised.
\<close>

definition new_allocation_update ::
  "olmar \<Rightarrow> int
     \<Rightarrow> error + (npfloat list \<times> npfloat list \<times> npfloat \<times> npfloat \<times> npfloat list)" where
  "new_allocation_update self day =
     (case predict_price_relatives self day of
        Inl e \<Rightarrow> Inl e
      | Inr predicted_price_rel \<Rightarrow>
          (case py_getitem (get_op (data self)) day of
             Inl e \<Rightarrow> Inl e
           | Inr today_op \<Rightarrow>
               (let avail_stocks = get_avail_stocks today_op;
                    avail_idxs = get_available_inds avail_stocks
                in case py_take predicted_price_rel avail_idxs of
                     Inl e \<Rightarrow> Inl e
                   | Inr ppr_avail \<Rightarrow>
                       (let mean_price_rel = np_mean ppr_avail
                        in case compute_lambda self ppr_avail mean_price_rel avail_idxs of
                             Inl e \<Rightarrow> Inl e
                           | Inr lam0 \<Rightarrow>
                               (let lam = py_min (Fin 100000) lam0
                                in case update_loop (b self) predicted_price_rel
                                          mean_price_rel lam [0..<num_stocks self]
                                          (replicate (num_stocks self) (Fin 0)) of
                                     Inl e \<Rightarrow> Inl e
                                   | Inr new_b \<Rightarrow>
                                       Inr (predicted_price_rel, ppr_avail, mean_price_rel,
                                            lam, new_b))))))"

text \<open>
  \<^verbatim>\<open>get_new_allocation\<close>, lines 124 to 153. Line 153 divides by \<^verbatim>\<open>sum_b\<close> with no
  test: \<^verbatim>\<open>1.0 / sum_b\<close> is a numpy division, which yields an infinity for a zero
  \<^verbatim>\<open>sum_b\<close> and does not raise.
\<close>

definition get_new_allocation :: "olmar \<Rightarrow> int \<Rightarrow> bool \<Rightarrow> error + npfloat list" where
  "get_new_allocation self day init =
     (if init \<and> data_train self = None then
        (case py_getitem (get_op (data self)) day of
           Inl e \<Rightarrow> Inl e
         | Inr cur_day_op \<Rightarrow> Inr (get_uniform_allocation (num_stocks self) cur_day_op))
      else
        (case new_allocation_update self day of
           Inl e \<Rightarrow> Inl e
         | Inr (predicted_price_rel, ppr_avail, mean_price_rel, lam, new_b) \<Rightarrow>
             (let sum_b = norm1 new_b
              in Inr (map (np_mul (np_div (Fin 1) sum_b)) new_b))))"

section \<open>Construction\<close>

text \<open>
  The arguments of \<^verbatim>\<open>Portfolio.__init__\<close>, as \<^verbatim>\<open>OLMAR.__init__\<close> passes them on, and
  the arguments of \<^verbatim>\<open>OLMAR.__init__\<close>.
\<close>

record portfolio_args =
  arg_market_data :: market_data
  arg_market_data_train :: "market_data option"
  arg_start :: int
  arg_stop :: "int option"
  arg_rebal_interval :: int
  arg_init_b :: "real list option"
  arg_tune_interval :: "int option"
  arg_verbose :: bool
  arg_silent :: bool
  arg_past_results_dir :: "string option"
  arg_new_results_dir :: "string option"
  arg_repeat_past :: bool

record olmar_args = portfolio_args +
  arg_window :: int
  arg_eps :: real
  arg_window_range :: "int list"
  arg_eps_range :: "real list"

text \<open>
  The code that \<^verbatim>\<open>olmar.py\<close> calls and does not contain, taken as parameters:
  the constructor of the base class, \<^verbatim>\<open>util.load_hyperparams\<close> (the stored values are
  taken to be numbers), and the run of a trial followed by
  \<^verbatim>\<open>util.empirical_sharpe_ratio\<close> of its history of wealth (a float, which can be an
  infinity or NaN, or an error of the run).
\<close>

record externals =
  Portfolio_init :: "portfolio_args \<Rightarrow> error + portfolio"
  load_hyperparams :: "string \<Rightarrow> string list \<Rightarrow> error + (string \<rightharpoonup> real)"
  run_sharpe_ratio :: "olmar \<Rightarrow> int \<Rightarrow> int \<Rightarrow> error + npfloat"

text \<open>\<^verbatim>\<open>int(x)\<close> of a number truncates towards zero.\<close>

definition py_int :: "real \<Rightarrow> int" where
  "py_int x = (if 0 \<le> x then \<lfloor>x\<rfloor> else \<lceil>x\<rceil>)"

text \<open>Lines 40 to 43: the hyperparameters after the stored ones have replaced them.\<close>

definition stored_hyperparams :: "externals \<Rightarrow> olmar_args \<Rightarrow> error + (int \<times> real)" where
  "stored_hyperparams ext args =
     (case arg_past_results_dir args of
        None \<Rightarrow> Inr (arg_window args, arg_eps args)
      | Some past_results_dir \<Rightarrow>
          (case load_hyperparams ext past_results_dir [''Window'', ''Epsilon''] of
             Inl e \<Rightarrow> Inl e
           | Inr hyperparams_dict \<Rightarrow>
               (case hyperparams_dict ''Window'' of
                  None \<Rightarrow> Inl KeyError
                | Some w \<Rightarrow>
                    (case hyperparams_dict ''Epsilon'' of
                       None \<Rightarrow> Inl KeyError
                     | Some e \<Rightarrow> Inr (py_int w, e)))))"

text \<open>\<^verbatim>\<open>OLMAR.__init__\<close>, lines 33 to 55.\<close>

definition OLMAR_init :: "externals \<Rightarrow> olmar_args \<Rightarrow> error + olmar" where
  "OLMAR_init ext args =
     (if arg_eps args \<le> 1 then Inl (Exception ''Epsilon must be > 1.'')
      else if arg_window args < 1 then
        Inl (Exception
          ''Window length must be at least 1, and it is recommended that the window be >= 3.'')
      else
        (case stored_hyperparams ext args of
           Inl e \<Rightarrow> Inl e
         | Inr (win, ep) \<Rightarrow>
             (case Portfolio_init ext (portfolio_args.truncate args) of
                Inl e \<Rightarrow> Inl e
              | Inr p \<Rightarrow>
                  Inr \<lparr>data = data p, data_train = data_train p, b = b p,
                       b_history = b_history p, num_stocks = num_stocks p,
                       portfolio_type = ''OLMAR'', window = win, eps = ep,
                       window_hist = [win], eps_hist = [ep],
                       window_range = arg_window_range args,
                       eps_range = arg_eps_range args,
                       new_results_dir = arg_new_results_dir args\<rparr>)))"

section \<open>The hyperparameter tuner\<close>






section \<open>Well-formed instances\<close>

text \<open>
  The arrays of an instance fit together: every row of prices has one entry per asset,
  the open and the close prices cover the same days, and the current allocation has one
  entry per asset. A day is valid when it is a day of the live period. A numpy array is
  rectangular, and numpy raises ValueError when arrays of different widths are
  concatenated or combined elementwise; the lists of rows of the model have no such
  branch, and the theorems below are about well-formed instances, where the widths agree.
\<close>

definition wf_olmar :: "olmar \<Rightarrow> bool" where
  "wf_olmar self =
     (list_all (\<lambda>r. length r = num_stocks self) (get_op (data self))
      \<and> list_all (\<lambda>r. length r = num_stocks self) (get_cl (data self))
      \<and> length (get_cl (data self)) = length (get_op (data self))
      \<and> (case data_train self of
            None \<Rightarrow> True
          | Some train \<Rightarrow> list_all (\<lambda>r. length r = num_stocks self) (get_cl train))
      \<and> length (b self) = num_stocks self)"

definition valid_day :: "olmar \<Rightarrow> int \<Rightarrow> bool" where
  "valid_day self day = (0 \<le> day \<and> day < int (length (get_op (data self))))"

section \<open>Concrete inputs\<close>

text \<open>
  A market of two assets and three days (no asset is available on the last day), a
  training period of two days, instances over them, stand-ins for the external code, and
  constructor arguments, on which the theorems below are evaluated.
\<close>

definition example_market :: market_data where
  "example_market =
     \<lparr>get_op = [[1, 1], [1, 1], [0, 0]], get_cl = [[1, 3], [2, 2], [3, 1]]\<rparr>"

definition example_train :: market_data where
  "example_train = \<lparr>get_op = [[5, 5], [6, 6]], get_cl = [[5, 5], [6, 6]]\<rparr>"

definition example_olmar :: "market_data option \<Rightarrow> real list \<Rightarrow> int \<Rightarrow> real \<Rightarrow> olmar" where
  "example_olmar train cur_b win ep =
     \<lparr>data = example_market, data_train = train, b = cur_b,
      b_history = [], num_stocks = 2,
      portfolio_type = ''OLMAR'', window = win, eps = ep,
      window_hist = [win], eps_hist = [ep],
      window_range = [1, 2], eps_range = [6 / 5, 3 / 2],
      new_results_dir = None\<rparr>"

definition example_externals :: externals where
  "example_externals =
     \<lparr>Portfolio_init = (\<lambda>a. Inr \<lparr>data = arg_market_data a,
                                  data_train = arg_market_data_train a,
                                  b = (case arg_init_b a of None \<Rightarrow> [] | Some v \<Rightarrow> v),
                                  b_history = [], num_stocks = 2\<rparr>),
      load_hyperparams = (\<lambda>dir keys. Inr [''Window'' \<mapsto> 0, ''Epsilon'' \<mapsto> 1 / 2]),
      run_sharpe_ratio = (\<lambda>p start_day cur_day. Inr (Fin (real_of_int (window p))))\<rparr>"



definition example_args :: "int \<Rightarrow> real \<Rightarrow> string option \<Rightarrow> olmar_args" where
  "example_args win ep dir =
     \<lparr>arg_market_data = example_market, arg_market_data_train = None,
      arg_start = 0, arg_stop = None, arg_rebal_interval = 1,
      arg_init_b = None, arg_tune_interval = Some 15,
      arg_verbose = False, arg_silent = False,
      arg_past_results_dir = dir, arg_new_results_dir = None, arg_repeat_past = False,
      arg_window = win, arg_eps = ep,
      arg_window_range = [1, 2], arg_eps_range = [6 / 5, 3 / 2]\<rparr>"

section \<open>Python indexing on valid arguments\<close>

lemma slice_bound_nonneg: "0 \<le> i \<Longrightarrow> i \<le> int n \<Longrightarrow> slice_bound n i = nat i"
  by (simp add: slice_bound_def)

lemma slice_bound_neg: "i < 0 \<Longrightarrow> slice_bound n i = n - nat (- i)"
  by (auto simp: slice_bound_def Let_def)

lemma py_slice_inside:
  "0 \<le> lo \<Longrightarrow> lo \<le> hi \<Longrightarrow> hi \<le> int (length xs) \<Longrightarrow>
   py_slice xs lo hi = take (nat (hi - lo)) (drop (nat lo) xs)"
  by (simp add: py_slice_def slice_bound_nonneg nat_diff_distrib Let_def)

lemma py_slice_from_neg: "lo < 0 \<Longrightarrow> py_slice_from xs lo = drop (length xs - nat (- lo)) xs"
  by (simp add: py_slice_from_def slice_bound_neg)

lemma py_getitem_valid:
  "0 \<le> i \<Longrightarrow> i < int (length xs) \<Longrightarrow> py_getitem xs i = Inr (xs ! nat i)"
  by (simp add: py_getitem_def)

lemma wf_example [simp]:
  "wf_olmar (example_olmar None cur_b win ep) = (length cur_b = 2)"
  "wf_olmar (example_olmar (Some example_train) cur_b win ep) = (length cur_b = 2)"
  by (simp_all add: wf_olmar_def example_olmar_def example_market_def example_train_def)

lemma valid_day_example [simp]:
  "valid_day (example_olmar train cur_b win ep) day = (0 \<le> day \<and> day < 3)"
  by (simp add: valid_day_def example_olmar_def example_market_def)

section \<open>Arrays of finite numbers\<close>

lemma np_sum_Fin: "np_sum (map Fin xs) = Fin (sum_list xs)"
  by (induction xs) (simp_all add: np_sum_def)

lemma np_mean_Fin:
  "xs \<noteq> [] \<Longrightarrow> np_mean (map Fin xs) = Fin (sum_list xs / real (length xs))"
  by (simp add: np_mean_def np_sum_Fin)

lemma np_mean_Fin_map:
  "xs \<noteq> [] \<Longrightarrow> np_mean (map (\<lambda>x. Fin (f x)) xs) = Fin (sum_list (map f xs) / real (length xs))"
  using np_mean_Fin [of "map f xs"] by (simp add: comp_def)

lemma np_mean_Nil: "np_mean [] = NaN"
  by (simp add: np_mean_def np_sum_def)

lemma np_mean_axis0_rect:
  assumes "m \<noteq> []" and "list_all (\<lambda>r. length r = n) m"
  shows "np_mean_axis0 m =
           map (\<lambda>j. Fin (sum_list (map (\<lambda>r. r ! j) m) / real (length m))) [0..<n]"
proof -
  have "transpose m = map (\<lambda>j. map (\<lambda>i. m ! i ! j) [0..<length m]) [0..<n]"
    by (rule transpose_rectangle) (use assms in \<open>simp_all add: list_all_length\<close>)
  moreover have "map (\<lambda>i. m ! i ! j) [0..<length m] = map (\<lambda>r. r ! j) m" for j
    by (rule nth_equalityI) simp_all
  ultimately have "transpose m = map (\<lambda>j. map (\<lambda>r. r ! j) m) [0..<n]"
    by simp
  then show ?thesis
    using assms(1) by (simp add: np_mean_axis0_def np_mean_Fin_map comp_def)
qed

lemma silent_divide_nth:
  assumes "length ys = n"
  shows "silent_divide (map f [0..<n]) ys =
           map (\<lambda>j. if 0 < ys ! j then np_div (f j) (Fin (ys ! j)) else Fin 0) [0..<n]"
  using assms by (auto simp: silent_divide_def intro!: nth_equalityI)

lemma set_py_slice: "set (py_slice xs lo hi) \<subseteq> set xs"
  by (auto simp: py_slice_def Let_def dest: in_set_takeD in_set_dropD)

lemma set_py_slice_from: "set (py_slice_from xs lo) \<subseteq> set xs"
  by (auto simp: py_slice_from_def dest: in_set_dropD)

lemma get_window_prices_returns:
  assumes "valid_day self day"
  shows "\<exists>win' window_cl. get_window_prices self day win =
           Inr (win', window_cl, get_op (data self) ! nat day)"
proof -
  have "py_getitem (get_op (data self)) day = Inr (get_op (data self) ! nat day)"
    using assms by (simp add: valid_day_def py_getitem_valid)
  then show ?thesis
    by (simp add: get_window_prices_def Let_def split: option.split)
qed

lemma list_all_py_slice: "list_all P xs \<Longrightarrow> list_all P (py_slice xs lo hi)"
  using set_py_slice [of xs lo hi] by (auto simp: list_all_iff)

lemma list_all_py_slice_from: "list_all P xs \<Longrightarrow> list_all P (py_slice_from xs lo)"
  using set_py_slice_from [of xs lo] by (auto simp: list_all_iff)

lemma get_window_prices_rect:
  assumes "wf_olmar self" and "get_window_prices self day win = Inr (win', window_cl, today_op)"
  shows "list_all (\<lambda>r. length r = num_stocks self) window_cl"
proof -
  have live: "list_all (\<lambda>r. length r = num_stocks self) (py_slice (get_cl (data self)) lo hi)"
    for lo hi
    using assms(1) by (intro list_all_py_slice) (simp add: wf_olmar_def)
  have past: "list_all (\<lambda>r. length r = num_stocks self) (py_slice_from (get_cl train) lo)"
    if "data_train self = Some train" for train lo
    using assms(1) that by (intro list_all_py_slice_from) (simp add: wf_olmar_def)
  show ?thesis
    using assms(2) live past
    by (auto simp: get_window_prices_def Let_def split: sum.splits option.splits if_splits)
qed

lemma today_op_length:
  "wf_olmar self \<Longrightarrow> valid_day self day \<Longrightarrow>
   length (get_op (data self) ! nat day) = num_stocks self"
  by (auto simp: wf_olmar_def valid_day_def list_all_length nat_less_iff)

lemma example_window_prices:
  "get_window_prices (example_olmar None cur_b 1 ep) 1 1 = Inr (1, [[1, 3]], [1, 1])"
  "get_window_prices (example_olmar None cur_b 1 ep) 2 1 = Inr (1, [[2, 2]], [0, 0])"
  by (simp_all add: get_window_prices_def py_getitem_def py_slice_def slice_bound_def
        example_olmar_def example_market_def)

lemma predict_price_relatives_eq:
  assumes "wf_olmar self" and "valid_day self day"
  shows "\<exists>win' window_cl today_op.
           get_window_prices self day (window self) = Inr (win', window_cl, today_op)
           \<and> today_op = get_op (data self) ! nat day
           \<and> predict_price_relatives self day =
               Inr (map (\<lambda>j. if 0 < today_op ! j
                              then Fin (sum_list (map (\<lambda>r. r ! j) (window_cl @ [today_op]))
                                        / real (length (window_cl @ [today_op])) / today_op ! j)
                              else Fin 0)
                        [0..<num_stocks self])"
proof -
  let ?op = "get_op (data self) ! nat day"
  obtain win' window_cl where
    g: "get_window_prices self day (window self) = Inr (win', window_cl, ?op)"
    using get_window_prices_returns [OF assms(2)] by blast
  have n: "length ?op = num_stocks self"
    using assms by (rule today_op_length)
  have "list_all (\<lambda>r. length r = num_stocks self) (window_cl @ [?op])"
    using get_window_prices_rect [OF assms(1) g] n by simp
  then have m: "np_mean_axis0 (window_cl @ [?op]) =
      map (\<lambda>j. Fin (sum_list (map (\<lambda>r. r ! j) (window_cl @ [?op]))
                     / real (length (window_cl @ [?op])))) [0..<num_stocks self]"
    by (intro np_mean_axis0_rect) simp_all
  have "predict_price_relatives self day =
          Inr (silent_divide (np_mean_axis0 (window_cl @ [?op])) ?op)"
    using g by (simp add: predict_price_relatives_def)
  also have "silent_divide (np_mean_axis0 (window_cl @ [?op])) ?op =
      map (\<lambda>j. if 0 < ?op ! j
                then Fin (sum_list (map (\<lambda>r. r ! j) (window_cl @ [?op]))
                          / real (length (window_cl @ [?op])) / ?op ! j)
                else Fin 0) [0..<num_stocks self]"
    unfolding m by (subst silent_divide_nth [OF n]) simp
  finally show ?thesis
    using g by blast
qed


section \<open>The step size and the update loop on finite numbers\<close>

lemma py_take_valid:
  "\<forall>i\<in>set is. i < length xs \<Longrightarrow> py_take xs is = Inr (map ((!) xs) is)"
  by (induction "is") simp_all

lemma np_sum_Fin_map: "np_sum (map (\<lambda>x. Fin (f x)) xs) = Fin (sum_list (map f xs))"
  using np_sum_Fin [of "map f xs"] by (simp add: comp_def)

lemma norm1_Fin_map: "norm1 (map (\<lambda>x. Fin (f x)) xs) = Fin (sum_list (map (\<lambda>x. \<bar>f x\<bar>) xs))"
  by (simp add: norm1_def comp_def np_sum_Fin_map)

lemma norm1_Fin: "norm1 (map Fin xs) = Fin (sum_list (map abs xs))"
  using norm1_Fin_map [of "\<lambda>x. x" xs] by simp

lemma sum_list_squares_nonneg: "0 \<le> sum_list (map (\<lambda>x. f x * f x) xs)" for f :: "'a \<Rightarrow> real"
  by (rule sum_list_nonneg) auto

lemma norm2_Fin_map:
  "norm2 (map (\<lambda>x. Fin (f x)) xs) = Fin (sqrt (sum_list (map (\<lambda>x. f x * f x) xs)))"
  using sum_list_squares_nonneg [of f xs]
  by (simp add: norm2_def comp_def np_sum_Fin_map not_less)

lemma np_dot_Fin:
  "np_dot (map Fin xs) (map Fin ys) = Fin (sum_list (map2 (*) xs ys))"
proof -
  have "map2 np_mul (map Fin xs) (map Fin ys) = map (\<lambda>(x, y). Fin (x * y)) (zip xs ys)"
    by (induction xs arbitrary: ys) (auto simp: zip_Cons1 split: list.splits)
  moreover have "np_sum (map (\<lambda>p. Fin (fst p * snd p)) (zip xs ys)) =
          Fin (sum_list (map (\<lambda>p. fst p * snd p) (zip xs ys)))"
    by (rule np_sum_Fin_map)
  ultimately show ?thesis
    by (simp add: np_dot_def case_prod_unfold)
qed

lemma ppr_l2_norm_Fin:
  "ppr_l2_norm (map Fin xs) (Fin m) =
     Fin (sqrt (sum_list (map (\<lambda>x. (x - m) * (x - m)) xs)))"
proof -
  have "map2 np_sub (map Fin xs) (map (np_mul (Fin m)) (replicate (length xs) (Fin 1))) =
          map (\<lambda>x. Fin (x - m)) xs"
    by (rule nth_equalityI) (simp_all add: np_sub_def)
  then show ?thesis
    by (simp add: ppr_l2_norm_def norm2_Fin_map)
qed

lemma ppr_l2_norm_Nil: "ppr_l2_norm [] m = Fin 0"
  by (simp add: ppr_l2_norm_def norm2_def np_sum_def)


lemma py_max_Fin: "py_max (Fin x) (Fin y) = Fin (max x y)"
  by (simp add: py_max_def max_def)

lemma py_min_Fin: "py_min (Fin x) (Fin y) = Fin (min x y)"
  by (auto simp: py_min_def min_def)

lemma compute_lambda_Nil: "compute_lambda self [] m idxs = Inr (Fin 0)"
  by (simp add: compute_lambda_def ppr_l2_norm_Nil np_eq_def)

lemma compute_lambda_Fin:
  assumes "\<forall>i\<in>set idxs. i < length (b self)" and "length idxs = length xs"
  shows "compute_lambda self (map Fin xs) (Fin m) idxs =
           Inr (Fin (if sum_list (map (\<lambda>x. (x - m) * (x - m)) xs) = 0 then 0
                     else max 0 ((eps self - sum_list (map2 (*) (map ((!) (b self)) idxs) xs))
                                 / sum_list (map (\<lambda>x. (x - m) * (x - m)) xs))))"
proof -
  let ?S = "sum_list (map (\<lambda>x. (x - m) * (x - m)) xs)"
  have S: "0 \<le> ?S" by (rule sum_list_squares_nonneg)
  have t: "py_take (b self) idxs = Inr (map ((!) (b self)) idxs)"
    using assms(1) by (rule py_take_valid)
  show ?thesis
  proof (cases "?S = 0")
    case True
    then show ?thesis
      by (simp add: compute_lambda_def ppr_l2_norm_Fin np_eq_def)
  next
    case False
    then have "sqrt ?S \<noteq> 0" "sqrt ?S * sqrt ?S = ?S"
      using S by simp_all
    moreover have "np_dot (map Fin (map ((!) (b self)) idxs)) (map Fin xs) =
        Fin (sum_list (map2 (*) (map ((!) (b self)) idxs) xs))"
      by (rule np_dot_Fin)
    ultimately show ?thesis
      using False assms(2)
      by (simp add: compute_lambda_def ppr_l2_norm_Fin np_eq_def t np_sub_def
          pow2_def py_max_Fin del: map_map)
  qed
qed

lemma update_loop_result:
  assumes "\<forall>i\<in>set is. i < length ppr \<and> i < length cur_b" and "distinct is"
  shows "\<exists>nb. update_loop cur_b ppr mean lam is new_b = Inr nb \<and> length nb = length new_b
           \<and> (\<forall>j<length new_b. nb ! j =
                 (if j \<in> set is \<and> np_less (Fin 0) (ppr ! j)
                  then np_add (Fin (cur_b ! j)) (np_mul lam (np_sub (ppr ! j) mean))
                  else new_b ! j))"
  using assms
proof (induction "is" arbitrary: new_b)
  case Nil
  then show ?case by simp
next
  case (Cons i "is")
  let ?v = "np_add (Fin (cur_b ! i)) (np_mul lam (np_sub (ppr ! i) mean))"
  from Cons.prems have i: "i < length ppr" "i < length cur_b" "i \<notin> set is"
    and rest: "\<forall>k\<in>set is. k < length ppr \<and> k < length cur_b" "distinct is"
    by simp_all
  show ?case
  proof (cases "np_less (Fin 0) (ppr ! i)")
    case True
    from Cons.IH [OF rest, of "new_b[i := ?v]"] obtain nb where
      nb: "update_loop cur_b ppr mean lam is (new_b[i := ?v]) = Inr nb"
        "length nb = length new_b"
        "\<forall>j<length new_b. nb ! j =
           (if j \<in> set is \<and> np_less (Fin 0) (ppr ! j)
            then np_add (Fin (cur_b ! j)) (np_mul lam (np_sub (ppr ! j) mean))
            else new_b[i := ?v] ! j)"
      by auto
    have "update_loop cur_b ppr mean lam (i # is) new_b = Inr nb"
      using True i nb(1) by simp
    moreover have "nb ! j =
           (if j \<in> set (i # is) \<and> np_less (Fin 0) (ppr ! j)
            then np_add (Fin (cur_b ! j)) (np_mul lam (np_sub (ppr ! j) mean))
            else new_b ! j)" if "j < length new_b" for j
      using nb(3) that True i(3) by (cases "j = i") auto
    ultimately show ?thesis
      using nb(2) by blast
  next
    case False
    from Cons.IH [OF rest, of new_b] obtain nb where
      nb: "update_loop cur_b ppr mean lam is new_b = Inr nb"
        "length nb = length new_b"
        "\<forall>j<length new_b. nb ! j =
           (if j \<in> set is \<and> np_less (Fin 0) (ppr ! j)
            then np_add (Fin (cur_b ! j)) (np_mul lam (np_sub (ppr ! j) mean))
            else new_b ! j)"
      by auto
    have "update_loop cur_b ppr mean lam (i # is) new_b = Inr nb"
      using False i nb(1) by simp
    moreover have "nb ! j =
           (if j \<in> set (i # is) \<and> np_less (Fin 0) (ppr ! j)
            then np_add (Fin (cur_b ! j)) (np_mul lam (np_sub (ppr ! j) mean))
            else new_b ! j)" if "j < length new_b" for j
      using nb(3) that False by (cases "j = i") auto
    ultimately show ?thesis
      using nb(2) by blast
  qed
qed

lemma update_loop_zeros:
  assumes "n \<le> length ppr" and "n \<le> length cur_b"
  shows "update_loop cur_b ppr mean lam [0..<n] (replicate n (Fin 0)) =
           Inr (map (\<lambda>j. if np_less (Fin 0) (ppr ! j)
                          then np_add (Fin (cur_b ! j)) (np_mul lam (np_sub (ppr ! j) mean))
                          else Fin 0) [0..<n])"
proof -
  have "\<forall>i\<in>set [0..<n]. i < length ppr \<and> i < length cur_b" "distinct [0..<n]"
    using assms by auto
  from update_loop_result [OF this, of mean lam "replicate n (Fin 0)"] obtain nb where
    nb: "update_loop cur_b ppr mean lam [0..<n] (replicate n (Fin 0)) = Inr nb"
      "length nb = n"
      "\<forall>j<n. nb ! j =
           (if j \<in> set [0..<n] \<and> np_less (Fin 0) (ppr ! j)
            then np_add (Fin (cur_b ! j)) (np_mul lam (np_sub (ppr ! j) mean))
            else replicate n (Fin 0) ! j)"
    by auto
  have "nb = map (\<lambda>j. if np_less (Fin 0) (ppr ! j)
                          then np_add (Fin (cur_b ! j)) (np_mul lam (np_sub (ppr ! j) mean))
                          else Fin 0) [0..<n]"
    using nb(2,3) by (intro nth_equalityI) simp_all
  with nb(1) show ?thesis by simp
qed

lemma get_available_inds_filter:
  "get_available_inds (get_avail_stocks today_op) =
     filter (\<lambda>i. 0 < today_op ! i) [0..<length today_op]"
  by (auto simp: get_available_inds_def get_avail_stocks_def intro: filter_cong)

lemma predict_price_relatives_finite:
  assumes "wf_olmar self" and "valid_day self day"
  obtains pr where "predict_price_relatives self day = Inr (map Fin pr)"
    and "length pr = num_stocks self"
    and "\<forall>j<num_stocks self. get_op (data self) ! nat day ! j \<le> 0 \<longrightarrow> pr ! j = 0"
proof -
  let ?op = "get_op (data self) ! nat day"
  from predict_price_relatives_eq [OF assms] obtain win' window_cl where
    p: "predict_price_relatives self day =
               Inr (map (\<lambda>j. if 0 < ?op ! j
                              then Fin (sum_list (map (\<lambda>r. r ! j) (window_cl @ [?op]))
                                        / real (length (window_cl @ [?op])) / ?op ! j)
                              else Fin 0)
                        [0..<num_stocks self])"
    by blast
  let ?pr = "map (\<lambda>j. if 0 < ?op ! j
                              then sum_list (map (\<lambda>r. r ! j) (window_cl @ [?op]))
                                        / real (length (window_cl @ [?op])) / ?op ! j
                              else 0)
                        [0..<num_stocks self]"
  have "predict_price_relatives self day = Inr (map Fin ?pr)"
    unfolding p by (simp add: comp_def if_distrib [of Fin])
  moreover have "length ?pr = num_stocks self" by simp
  moreover have "\<forall>j<num_stocks self. ?op ! j \<le> 0 \<longrightarrow> ?pr ! j = 0" by simp
  ultimately show ?thesis by (rule that)
qed

lemma new_allocation_update_finite:
  fixes self :: olmar and day :: int
  defines "today_op \<equiv> get_op (data self) ! nat day"
  defines "avail \<equiv> filter (\<lambda>i. 0 < today_op ! i) [0..<num_stocks self]"
  assumes "wf_olmar self" and "valid_day self day"
  obtains pr l where "predict_price_relatives self day = Inr (map Fin pr)"
    and "length pr = num_stocks self"
    and "\<forall>j<num_stocks self. today_op ! j \<le> 0 \<longrightarrow> pr ! j = 0"
    and "(\<exists>i<num_stocks self. 0 < pr ! i) \<longrightarrow> avail \<noteq> []"
    and "new_allocation_update self day =
           Inr (map Fin pr, map Fin (map ((!) pr) avail), np_mean (map Fin (map ((!) pr) avail)),
                Fin l,
                map (\<lambda>i. if 0 < pr ! i
                          then Fin (b self ! i
                                    + l * (pr ! i - sum_list (map ((!) pr) avail) / real (length avail)))
                          else Fin 0) [0..<num_stocks self])"
    and "l = min 100000
               (if sum_list (map (\<lambda>x. (x - sum_list (map ((!) pr) avail) / real (length avail))
                                    * (x - sum_list (map ((!) pr) avail) / real (length avail)))
                                (map ((!) pr) avail)) = 0 then 0
                else max 0 ((eps self - sum_list (map2 (*) (map ((!) (b self)) avail) (map ((!) pr) avail)))
                       / sum_list (map (\<lambda>x. (x - sum_list (map ((!) pr) avail) / real (length avail))
                                    * (x - sum_list (map ((!) pr) avail) / real (length avail)))
                                (map ((!) pr) avail))))"
proof -
  let ?n = "num_stocks self"
  from assms(3,4) obtain pr where
    pr: "predict_price_relatives self day = Inr (map Fin pr)" "length pr = ?n"
      "\<forall>j<?n. today_op ! j \<le> 0 \<longrightarrow> pr ! j = 0"
    unfolding today_op_def by (rule predict_price_relatives_finite)
  let ?pa = "map ((!) pr) avail"
  let ?m = "sum_list ?pa / real (length avail)"
  let ?S = "sum_list (map (\<lambda>x. (x - ?m) * (x - ?m)) ?pa)"
  let ?raw = "if ?S = 0 then 0
             else max 0 ((eps self - sum_list (map2 (*) (map ((!) (b self)) avail) ?pa)) / ?S)"
  let ?l = "min 100000 ?raw"
  have lb: "length (b self) = ?n"
    using assms(3) by (simp add: wf_olmar_def)
  have lo: "length today_op = ?n"
    unfolding today_op_def using assms(3,4) by (rule today_op_length)
  have g: "py_getitem (get_op (data self)) day = Inr today_op"
    using assms(4) by (simp add: valid_day_def py_getitem_valid today_op_def)
  have ai: "get_available_inds (get_avail_stocks today_op) = avail"
    by (simp add: get_available_inds_filter lo avail_def)
  have av: "\<forall>i\<in>set avail. i < ?n"
    by (simp add: avail_def)
  have t: "py_take (map Fin pr) avail = Inr (map Fin ?pa)"
    using av pr(2) py_take_valid [of avail "map Fin pr"] by simp
  have cl: "compute_lambda self (map Fin ?pa) (np_mean (map Fin ?pa)) avail = Inr (Fin ?raw)"
  proof (cases "avail = []")
    case True
    then show ?thesis by (simp add: compute_lambda_Nil)
  next
    case False
    then have "np_mean (map Fin ?pa) = Fin ?m"
      using np_mean_Fin [of ?pa] by simp
    moreover have "compute_lambda self (map Fin ?pa) (Fin ?m) avail = Inr (Fin ?raw)"
      using av lb by (intro compute_lambda_Fin) simp_all
    ultimately show ?thesis by simp
  qed
  have pos: "avail \<noteq> []" if "i < ?n" "0 < pr ! i" for i
  proof -
    have "0 < today_op ! i"
      using pr(3) that by force
    then have "i \<in> set avail"
      using that by (simp add: avail_def)
    then show ?thesis by auto
  qed
  have ul: "update_loop (b self) (map Fin pr) (np_mean (map Fin ?pa)) (Fin ?l) [0..<?n]
              (replicate ?n (Fin 0)) =
            Inr (map (\<lambda>i. if 0 < pr ! i then Fin (b self ! i + ?l * (pr ! i - ?m)) else Fin 0)
                   [0..<?n])"
  proof -
    have "(if np_less (Fin 0) (map Fin pr ! i)
           then np_add (Fin (b self ! i))
                  (np_mul (Fin ?l) (np_sub (map Fin pr ! i) (np_mean (map Fin ?pa))))
           else Fin 0) =
          (if 0 < pr ! i then Fin (b self ! i + ?l * (pr ! i - ?m)) else Fin 0)"
      if "i < ?n" for i
    proof (cases "0 < pr ! i")
      case True
      then have "np_mean (map Fin ?pa) = Fin ?m"
        using pos [OF that] np_mean_Fin [of ?pa] by simp
      then show ?thesis
        using True that pr(2) by (simp add: np_sub_def)
    next
      case False
      then show ?thesis
        using that pr(2) by simp
    qed
    then have "map (\<lambda>i. if np_less (Fin 0) (map Fin pr ! i)
           then np_add (Fin (b self ! i))
                  (np_mul (Fin ?l) (np_sub (map Fin pr ! i) (np_mean (map Fin ?pa))))
           else Fin 0) [0..<?n] =
          map (\<lambda>i. if 0 < pr ! i then Fin (b self ! i + ?l * (pr ! i - ?m)) else Fin 0) [0..<?n]"
      by (intro map_cong) simp_all
    moreover have "?n \<le> length (map Fin pr)" "?n \<le> length (b self)"
      using pr(2) lb by simp_all
    ultimately show ?thesis
      using update_loop_zeros [of ?n "map Fin pr" "b self" "np_mean (map Fin ?pa)" "Fin ?l"]
      by simp
  qed
  have "new_allocation_update self day =
           Inr (map Fin pr, map Fin ?pa, np_mean (map Fin ?pa), Fin ?l,
                map (\<lambda>i. if 0 < pr ! i then Fin (b self ! i + ?l * (pr ! i - ?m)) else Fin 0)
                  [0..<?n])"
    unfolding new_allocation_update_def
    by (simp only: pr(1) g ai t cl ul py_min_Fin Let_def sum.case prod.case)
  then show ?thesis
    using pr pos by (intro that [of pr ?l]) auto
qed


section \<open>The model on the concrete inputs\<close>

lemma example_predict:
  "predict_price_relatives (example_olmar None cur_b 1 ep) 1 = Inr [Fin 1, Fin 2]"
  "predict_price_relatives (example_olmar None cur_b 1 ep) 2 = Inr [Fin 0, Fin 0]"
proof -
  have w: "window (example_olmar None cur_b 1 ep) = 1"
    by (simp add: example_olmar_def)
  show "predict_price_relatives (example_olmar None cur_b 1 ep) 1 = Inr [Fin 1, Fin 2]"
    by (simp add: predict_price_relatives_def w example_window_prices np_mean_axis0_def
        np_mean_def np_sum_def silent_divide_def)
  show "predict_price_relatives (example_olmar None cur_b 1 ep) 2 = Inr [Fin 0, Fin 0]"
    by (simp add: predict_price_relatives_def w example_window_prices np_mean_axis0_def
        np_mean_def np_sum_def silent_divide_def)
qed

lemma example_today_op:
  "py_getitem (get_op (data (example_olmar train cur_b win ep))) 1 = Inr [1, 1]"
  "py_getitem (get_op (data (example_olmar train cur_b win ep))) 2 = Inr [0, 0]"
  by (simp_all add: py_getitem_def example_olmar_def example_market_def)

lemma example_avail:
  "get_available_inds (get_avail_stocks [1, 1]) = [0, 1]"
  "get_available_inds (get_avail_stocks [0, 0]) = []"
  by (simp_all add: get_available_inds_def get_avail_stocks_def upt_rec)

lemma example_fields:
  "b (example_olmar train cur_b win ep) = cur_b"
  "eps (example_olmar train cur_b win ep) = ep"
  "num_stocks (example_olmar train cur_b win ep) = 2"
  "data_train (example_olmar train cur_b win ep) = train"
  by (simp_all add: example_olmar_def)

lemma example_l2_norm: "ppr_l2_norm [Fin 1, Fin 2] (Fin (3 / 2)) = Fin (sqrt (1 / 2))"
  by (simp add: ppr_l2_norm_def norm2_def np_sum_def np_sub_def)



lemma example_update_active:
  "new_allocation_update (example_olmar None [1, 0] 1 (13 / 10)) 1 =
     Inr ([Fin 1, Fin 2], [Fin 1, Fin 2], Fin (3 / 2), Fin (3 / 5), [Fin (7 / 10), Fin (3 / 10)])"
  by (simp add: new_allocation_update_def example_predict example_today_op example_avail
      example_fields np_mean_def np_sum_def compute_lambda_def example_l2_norm np_eq_def
      np_dot_def np_sub_def pow2_def py_max_def py_min_def upt_rec Let_def numeral_2_eq_2)

lemma example_update_unavailable:
  "new_allocation_update (example_olmar None cur_b 1 ep) 2 =
     Inr ([Fin 0, Fin 0], [], NaN, Fin 0, [Fin 0, Fin 0])"
  by (simp add: new_allocation_update_def example_predict example_today_op example_avail
      example_fields np_mean_def np_sum_def compute_lambda_Nil py_min_def upt_rec Let_def
      numeral_2_eq_2)

lemma example_allocation_unavailable:
  "get_new_allocation (example_olmar None cur_b 1 ep) 2 False = Inr [NaN, NaN]"
  by (simp add: get_new_allocation_def example_update_unavailable norm1_def np_sum_def)

lemma example_allocation_active:
  "get_new_allocation (example_olmar None [1, 0] 1 (13 / 10)) 1 False =
     Inr [Fin (7 / 10), Fin (3 / 10)]"
  by (simp add: get_new_allocation_def example_update_active norm1_def np_sum_def)

lemma example_allocation_init:
  "get_new_allocation (example_olmar None cur_b 1 ep) 1 True = Inr [Fin (1 / 2), Fin (1 / 2)]"
  "get_new_allocation (example_olmar None cur_b 1 ep) 2 True = Inr [Fin 0, Fin 0]"
  by (simp_all add: get_new_allocation_def example_fields example_today_op
      get_uniform_allocation_def get_avail_stocks_def)

section \<open>The uniform allocation and the normalisation\<close>

lemma sum_list_indicator:
  "sum_list (map (\<lambda>p. if P p then c else 0) xs) = real (length (filter P xs)) * c" for c :: real
  by (induction xs) (simp_all add: algebra_simps)

lemma get_uniform_allocation_Fin:
  "get_uniform_allocation n cur_day_op =
     map (\<lambda>p. if 0 < p then np_div (Fin 1) (Fin (real (length (filter (\<lambda>p. 0 < p) cur_day_op))))
                else Fin 0) cur_day_op"
proof -
  have "length (filter (\<lambda>a. a) (map (\<lambda>p. 0 < p) cur_day_op)) =
          length (filter (\<lambda>p. 0 < p) cur_day_op)"
    by (simp add: filter_map comp_def)
  then show ?thesis
    by (simp add: get_uniform_allocation_def get_avail_stocks_def Let_def comp_def)
qed

lemma get_uniform_allocation_available:
  assumes "\<exists>p\<in>set cur_day_op. 0 < p"
  shows "get_uniform_allocation n cur_day_op =
     map (\<lambda>p. Fin (if 0 < p then 1 / real (length (filter (\<lambda>p. 0 < p) cur_day_op)) else 0))
       cur_day_op"
proof -
  have "filter (\<lambda>p. 0 < p) cur_day_op \<noteq> []"
    using assms by (simp add: filter_empty_conv)
  then have "real (length (filter (\<lambda>p. 0 < p) cur_day_op)) \<noteq> 0"
    by simp
  then show ?thesis
    unfolding get_uniform_allocation_Fin by (intro map_cong) simp_all
qed

lemma uniform_sum:
  assumes "\<exists>p\<in>set cur_day_op. 0 < p"
  shows "sum_list (map (\<lambda>p. if 0 < p then 1 / real (length (filter (\<lambda>p. 0 < p) cur_day_op)) else 0)
           cur_day_op) = 1"
proof -
  have "filter (\<lambda>p. 0 < p) cur_day_op \<noteq> []"
    using assms by (simp add: filter_empty_conv)
  then show ?thesis
    by (simp add: sum_list_indicator)
qed

lemma sum_list_abs_scaled:
  "sum_list (map (\<lambda>x. \<bar>c * x\<bar>) xs) = \<bar>c\<bar> * sum_list (map abs xs)" for c :: real
  by (induction xs) (simp_all add: abs_mult algebra_simps)

lemma norm1_scaled:
  assumes "sum_list (map abs xs) \<noteq> 0"
  shows "norm1 (map (np_mul (np_div (Fin 1) (norm1 (map Fin xs)))) (map Fin xs)) = Fin 1"
proof -
  let ?S = "sum_list (map abs xs)"
  have S: "0 < ?S"
    using assms sum_list_nonneg [of "map abs xs"] by fastforce
  have e1: "map (np_mul (np_div (Fin 1) (norm1 (map Fin xs)))) (map Fin xs) =
          map (\<lambda>x. Fin (1 / ?S * x)) xs"
    using assms by (simp add: norm1_Fin)
  have e2: "norm1 (map (\<lambda>x. Fin (1 / ?S * x)) xs) = Fin (sum_list (map (\<lambda>x. \<bar>1 / ?S * x\<bar>) xs))"
    by (rule norm1_Fin_map)
  have e3: "sum_list (map (\<lambda>x. \<bar>1 / ?S * x\<bar>) xs) = 1"
    using S by (simp only: sum_list_abs_scaled) simp
  show ?thesis
    by (simp only: e1 e2 e3)
qed

section \<open>The greatest Sharpe ratio and its first position\<close>

lemma np_less_NaN_right [simp]: "\<not> np_less x NaN"
  by (cases x) simp_all




lemma foldl_max_NaN: "foldl (\<lambda>m y. if np_less m y then y else m) NaN xs = NaN"
  by (induction xs) simp_all













section \<open>Construction: validation of the arguments\<close>

text \<open>
  C7: constructing an instance with \<open>eps \<le> 1\<close> or \<open>window < 1\<close> raises the exception of
  line 34 or of line 36 and constructs no instance, whatever the external code would
  do: the test comes first, and no value is clamped.
\<close>

theorem OLMAR_init_rejects:
  "arg_eps args \<le> 1 \<or> arg_window args < 1 \<Longrightarrow>
   OLMAR_init ext args =
     Inl (Exception (if arg_eps args \<le> 1 then ''Epsilon must be > 1.''
        else ''Window length must be at least 1, and it is recommended that the window be >= 3.''))"
  by (auto simp: OLMAR_init_def)

theorem OLMAR_init_rejects_witness:
  "OLMAR_init example_externals (example_args 10 1 None) = Inl (Exception ''Epsilon must be > 1.'')
   \<and> OLMAR_init example_externals (example_args 0 (13 / 10) (Some ''past'')) =
     Inl (Exception ''Window length must be at least 1, and it is recommended that the window be >= 3.'')"
  using OLMAR_init_rejects [of "example_args 10 1 None" example_externals]
    OLMAR_init_rejects [of "example_args 0 (13 / 10) (Some ''past'')" example_externals]
  by (simp add: example_args_def)

text \<open>
  C10: with \<open>past_results_dir\<close> given, the stored window and epsilon replace the
  arguments after the validation: when the arguments pass the test and the external code
  succeeds, the instance has the stored values, whatever they are. The witness stores
  the window 0 and the epsilon 1/2, and the instance is constructed with them.
\<close>

theorem OLMAR_init_stored:
  assumes "1 < arg_eps args" and "1 \<le> arg_window args"
    and "arg_past_results_dir args = Some dir"
    and "load_hyperparams ext dir [''Window'', ''Epsilon''] = Inr d"
    and "d ''Window'' = Some w" and "d ''Epsilon'' = Some e"
    and "Portfolio_init ext (portfolio_args.truncate args) = Inr p"
  shows "\<exists>inst. OLMAR_init ext args = Inr inst \<and> window inst = py_int w \<and> eps inst = e
           \<and> window_hist inst = [py_int w] \<and> eps_hist inst = [e]"
  using assms by (simp add: OLMAR_init_def stored_hyperparams_def)

theorem OLMAR_init_stored_witness:
  "\<exists>inst. OLMAR_init example_externals (example_args 10 (13 / 10) (Some ''past'')) = Inr inst
      \<and> window inst = 0 \<and> eps inst = 1 / 2 \<and> eps inst \<le> 1 \<and> window inst < 1"
proof -
  have "\<exists>inst. OLMAR_init example_externals (example_args 10 (13 / 10) (Some ''past'')) = Inr inst
          \<and> window inst = py_int 0 \<and> eps inst = 1 / 2
          \<and> window_hist inst = [py_int 0] \<and> eps_hist inst = [1 / 2]"
    by (rule OLMAR_init_stored [where dir = "''past''"
          and d = "[''Window'' \<mapsto> 0, ''Epsilon'' \<mapsto> 1 / 2]"
          and p = "\<lparr>data = example_market, data_train = None, b = [], b_history = [],
                     num_stocks = 2\<rparr>"])
       (simp_all add: example_args_def example_externals_def portfolio_args.truncate_def)
  then obtain inst where
    "OLMAR_init example_externals (example_args 10 (13 / 10) (Some ''past'')) = Inr inst"
    "window inst = py_int 0" "eps inst = 1 / 2"
    by blast
  then show ?thesis
    by (intro exI [of _ inst]) (simp add: py_int_def)
qed

section \<open>The window extractor\<close>

text \<open>
  C6: on a well-formed instance, a valid day and a window that is not negative,
  \<open>get_window_prices\<close> returns: for \<open>day \<ge> window\<close>, the requested window and
  exactly \<open>window\<close> rows, the live closes of the days from \<open>day - window\<close> up to
  \<open>day\<close> (excluded); for \<open>day < window\<close> with no training data, the window \<open>day\<close> and
  the live closes of the days before \<open>day\<close> (none for day 0); for \<open>day < window\<close> with
  training data, the last \<open>window - day\<close> training closes (all of them when there are
  fewer) followed by the live closes of the days before \<open>day\<close> (none for day 0). The
  third component is the row of opening prices of the day.
\<close>

theorem get_window_prices_window:
  assumes "wf_olmar self" and "valid_day self day"
  shows "(0 \<le> win \<and> win \<le> day \<longrightarrow>
            get_window_prices self day win =
              Inr (win, take (nat win) (drop (nat (day - win)) (get_cl (data self))),
                   get_op (data self) ! nat day)
            \<and> length (take (nat win) (drop (nat (day - win)) (get_cl (data self)))) = nat win)
       \<and> (day < win \<and> data_train self = None \<longrightarrow>
            get_window_prices self day win =
              Inr (day, take (nat day) (get_cl (data self)), get_op (data self) ! nat day)
            \<and> length (take (nat day) (get_cl (data self))) = nat day)
       \<and> (\<forall>train. day < win \<and> data_train self = Some train \<longrightarrow>
            get_window_prices self day win =
              Inr (win, drop (length (get_cl train) - nat (win - day)) (get_cl train)
                        @ take (nat day) (get_cl (data self)),
                   get_op (data self) ! nat day))"
proof -
  from assms have d: "0 \<le> day" "day < int (length (get_op (data self)))"
    and l: "length (get_cl (data self)) = length (get_op (data self))"
    by (simp_all add: valid_day_def wf_olmar_def)
  have g: "py_getitem (get_op (data self)) day = Inr (get_op (data self) ! nat day)"
    using d by (rule py_getitem_valid)
  have a: "get_window_prices self day win =
              Inr (win, take (nat win) (drop (nat (day - win)) (get_cl (data self))),
                   get_op (data self) ! nat day)
            \<and> length (take (nat win) (drop (nat (day - win)) (get_cl (data self)))) = nat win"
    if "0 \<le> win" "win \<le> day"
  proof -
    have "py_slice (get_cl (data self)) (day - win) day =
            take (nat win) (drop (nat (day - win)) (get_cl (data self)))"
      using that d l py_slice_inside [of "day - win" day "get_cl (data self)"] by simp
    moreover have "nat win \<le> length (get_cl (data self)) - nat (day - win)"
      using that d l by linarith
    ultimately show ?thesis
      using that g by (simp add: get_window_prices_def split: option.split)
  qed
  have b: "get_window_prices self day win =
              Inr (day, take (nat day) (get_cl (data self)), get_op (data self) ! nat day)
            \<and> length (take (nat day) (get_cl (data self))) = nat day"
    if "day < win" "data_train self = None"
  proof -
    have "py_slice (get_cl (data self)) 0 day = take (nat day) (get_cl (data self))"
      using d l py_slice_inside [of 0 day "get_cl (data self)"] by simp
    then show ?thesis
      using that g d l by (simp add: get_window_prices_def)
  qed
  have c: "get_window_prices self day win =
              Inr (win, drop (length (get_cl train) - nat (win - day)) (get_cl train)
                        @ take (nat day) (get_cl (data self)),
                   get_op (data self) ! nat day)"
    if "day < win" "data_train self = Some train" for train
  proof -
    have "py_slice (get_cl (data self)) 0 day = take (nat day) (get_cl (data self))"
      using d l py_slice_inside [of 0 day "get_cl (data self)"] by simp
    moreover have "py_slice_from (get_cl train) (day - win) =
        drop (length (get_cl train) - nat (win - day)) (get_cl train)"
      using that py_slice_from_neg [of "day - win" "get_cl train"] by simp
    ultimately show ?thesis
      using that g d by (auto simp: get_window_prices_def Let_def)
  qed
  from a b c show ?thesis by blast
qed

theorem get_window_prices_window_witness:
  "get_window_prices (example_olmar None [1, 0] 1 (13 / 10)) 2 1 = Inr (1, [[2, 2]], [0, 0])
   \<and> get_window_prices (example_olmar None [1, 0] 1 (13 / 10)) 1 3 = Inr (1, [[1, 3]], [1, 1])
   \<and> get_window_prices (example_olmar None [1, 0] 1 (13 / 10)) 0 3 = Inr (0, [], [1, 1])
   \<and> get_window_prices (example_olmar (Some example_train) [1, 0] 1 (13 / 10)) 1 2 =
       Inr (2, [[6, 6], [1, 3]], [1, 1])
   \<and> get_window_prices (example_olmar (Some example_train) [1, 0] 1 (13 / 10)) 0 1 =
       Inr (1, [[6, 6]], [1, 1])"
proof -
  let ?s = "example_olmar None [1, 0] 1 (13 / 10)"
  let ?t = "example_olmar (Some example_train) [1, 0] 1 (13 / 10)"
  have w: "wf_olmar ?s" "wf_olmar ?t" by simp_all
  have v: "valid_day ?s 2" "valid_day ?s 1" "valid_day ?s 0" "valid_day ?t 1" "valid_day ?t 0"
    by simp_all
  show ?thesis
    using get_window_prices_window [OF w(1) v(1), of 1]
      get_window_prices_window [OF w(1) v(2), of 3]
      get_window_prices_window [OF w(1) v(3), of 3]
      get_window_prices_window [OF w(2) v(4), of 2]
      get_window_prices_window [OF w(2) v(5), of 1]
    by (simp add: example_olmar_def example_market_def example_train_def)
qed

section \<open>The predictor\<close>

text \<open>
  C8: on a well-formed instance and a valid day, \<open>predict_price_relatives\<close> returns,
  for every asset, the arithmetic mean of the column of the asset in the window of
  closing prices with the row of opening prices of the day appended, divided by the
  opening price of the asset; an asset whose opening price is zero (or negative) gets the
  predicted relative zero, and nothing is divided by it.
\<close>

theorem predict_price_relatives_mean:
  assumes "wf_olmar self" and "valid_day self day"
  shows "\<exists>win' window_cl today_op.
           get_window_prices self day (window self) = Inr (win', window_cl, today_op)
           \<and> today_op = get_op (data self) ! nat day
           \<and> predict_price_relatives self day =
               Inr (map (\<lambda>j. if 0 < today_op ! j
                              then Fin (sum_list (map (\<lambda>r. r ! j) (window_cl @ [today_op]))
                                        / real (length (window_cl @ [today_op])) / today_op ! j)
                              else Fin 0)
                        [0..<num_stocks self])"
  using assms by (rule predict_price_relatives_eq)

theorem predict_price_relatives_mean_witness:
  "predict_price_relatives (example_olmar None [1, 0] 1 (13 / 10)) 1 = Inr [Fin 1, Fin 2]
   \<and> predict_price_relatives (example_olmar None [1, 0] 1 (13 / 10)) 2 = Inr [Fin 0, Fin 0]"
proof -
  let ?s = "example_olmar None [1, 0] 1 (13 / 10)"
  have w: "wf_olmar ?s" by simp
  have v: "valid_day ?s 1" "valid_day ?s 2" by simp_all
  have k: "window ?s = 1" "num_stocks ?s = 2" "[0..<2] = [0, 1]"
    by (simp_all add: example_olmar_def upt_rec)
  show ?thesis
    using predict_price_relatives_mean [OF w v(1)] predict_price_relatives_mean [OF w v(2)]
    by (auto simp: k example_window_prices)
qed

section \<open>The step size\<close>




section \<open>The update step\<close>

text \<open>
  C5: on a well-formed instance and a valid day, the allocation before normalisation
  has, for every asset whose predicted price relative is strictly positive, the weight
  \<open>b[i] + lam * (ppr - mean_price_rel)\<close>, where \<open>mean_price_rel\<close> is the mean of the
  predicted price relatives of the available assets; every other asset has the weight
  zero, whatever its weight was; and an unavailable asset (its opening price is not
  positive) has the predicted price relative zero, hence the weight zero.
\<close>

theorem update_step_weights:
  fixes self :: olmar and day :: int
  defines "today_op \<equiv> get_op (data self) ! nat day"
  defines "avail \<equiv> filter (\<lambda>i. 0 < today_op ! i) [0..<num_stocks self]"
  assumes "wf_olmar self" and "valid_day self day"
  shows "\<exists>ppr ppr_avail mean_ppr lam new_b.
           new_allocation_update self day = Inr (ppr, ppr_avail, mean_ppr, lam, new_b)
           \<and> length ppr = num_stocks self \<and> length new_b = num_stocks self
           \<and> ppr_avail = map ((!) ppr) avail \<and> mean_ppr = np_mean ppr_avail
           \<and> (\<forall>i<num_stocks self.
                 new_b ! i =
                   (if np_less (Fin 0) (ppr ! i)
                    then np_add (Fin (b self ! i)) (np_mul lam (np_sub (ppr ! i) mean_ppr))
                    else Fin 0))
           \<and> (\<forall>i<num_stocks self. today_op ! i \<le> 0 \<longrightarrow> ppr ! i = Fin 0 \<and> new_b ! i = Fin 0)"
proof -
  let ?n = "num_stocks self"
  from assms(3,4) obtain pr l where
    pr: "length pr = ?n" "\<forall>j<?n. today_op ! j \<le> 0 \<longrightarrow> pr ! j = 0"
      "(\<exists>i<?n. 0 < pr ! i) \<longrightarrow> avail \<noteq> []"
    and u: "new_allocation_update self day =
           Inr (map Fin pr, map Fin (map ((!) pr) avail), np_mean (map Fin (map ((!) pr) avail)),
                Fin l,
                map (\<lambda>i. if 0 < pr ! i
                          then Fin (b self ! i
                                    + l * (pr ! i - sum_list (map ((!) pr) avail) / real (length avail)))
                          else Fin 0) [0..<?n])"
    unfolding today_op_def avail_def by (rule new_allocation_update_finite)
  let ?pa = "map ((!) pr) avail"
  let ?m = "sum_list ?pa / real (length avail)"
  let ?nb = "map (\<lambda>i. if 0 < pr ! i then Fin (b self ! i + l * (pr ! i - ?m)) else Fin 0) [0..<?n]"
  have pa: "map Fin ?pa = map ((!) (map Fin pr)) avail"
    using pr(1) by (simp add: avail_def)
  have w: "?nb ! i =
             (if np_less (Fin 0) (map Fin pr ! i)
              then np_add (Fin (b self ! i))
                     (np_mul (Fin l) (np_sub (map Fin pr ! i) (np_mean (map Fin ?pa))))
              else Fin 0)" if "i < ?n" for i
  proof (cases "0 < pr ! i")
    case True
    then have "avail \<noteq> []" using pr(3) that by blast
    then have "np_mean (map Fin ?pa) = Fin ?m"
      using np_mean_Fin [of ?pa] by simp
    then show ?thesis
      using True that pr(1) by (simp add: np_sub_def)
  next
    case False
    then show ?thesis using that pr(1) by simp
  qed
  have z: "map Fin pr ! i = Fin 0 \<and> ?nb ! i = Fin 0" if "i < ?n" "today_op ! i \<le> 0" for i
    using that pr(1,2) by simp
  have "new_allocation_update self day =
          Inr (map Fin pr, map Fin ?pa, np_mean (map Fin ?pa), Fin l, ?nb)
        \<and> length (map Fin pr) = ?n \<and> length ?nb = ?n
        \<and> map Fin ?pa = map ((!) (map Fin pr)) avail
        \<and> np_mean (map Fin ?pa) = np_mean (map Fin ?pa)
        \<and> (\<forall>i<?n. ?nb ! i =
             (if np_less (Fin 0) (map Fin pr ! i)
              then np_add (Fin (b self ! i))
                     (np_mul (Fin l) (np_sub (map Fin pr ! i) (np_mean (map Fin ?pa))))
              else Fin 0))
        \<and> (\<forall>i<?n. today_op ! i \<le> 0 \<longrightarrow> map Fin pr ! i = Fin 0 \<and> ?nb ! i = Fin 0)"
    using u pr(1) pa w z by (simp del: map_map)
  then show ?thesis by blast
qed

theorem update_step_weights_witness:
  "wf_olmar (example_olmar None [1, 0] 1 (13 / 10))
   \<and> valid_day (example_olmar None [1, 0] 1 (13 / 10)) 1
   \<and> valid_day (example_olmar None [1, 0] 1 (13 / 10)) 2
   \<and> new_allocation_update (example_olmar None [1, 0] 1 (13 / 10)) 1 =
       Inr ([Fin 1, Fin 2], [Fin 1, Fin 2], Fin (3 / 2), Fin (3 / 5),
            [Fin (7 / 10), Fin (3 / 10)])
   \<and> Fin (7 / 10) = np_add (Fin 1) (np_mul (Fin (3 / 5)) (np_sub (Fin 1) (Fin (3 / 2))))
   \<and> Fin (3 / 10) = np_add (Fin 0) (np_mul (Fin (3 / 5)) (np_sub (Fin 2) (Fin (3 / 2))))
   \<and> new_allocation_update (example_olmar None [1, 0] 1 (13 / 10)) 2 =
       Inr ([Fin 0, Fin 0], [], NaN, Fin 0, [Fin 0, Fin 0])"
proof -
  let ?s = "example_olmar None [1, 0] 1 (13 / 10)"
  have w: "wf_olmar ?s" and v: "valid_day ?s 1" "valid_day ?s 2" by simp_all
  have n: "num_stocks ?s = 2" "b ?s = [1, 0]" by (simp_all add: example_fields)
  from update_step_weights [OF w v(1)] obtain new_b where
    "new_allocation_update ?s 1 =
       Inr ([Fin 1, Fin 2], [Fin 1, Fin 2], Fin (3 / 2), Fin (3 / 5), new_b)"
    "\<forall>i<2. new_b ! i =
       (if np_less (Fin 0) ([Fin 1, Fin 2] ! i)
        then np_add (Fin ([1, 0] ! i))
               (np_mul (Fin (3 / 5)) (np_sub ([Fin 1, Fin 2] ! i) (Fin (3 / 2))))
        else Fin 0)"
    unfolding n example_update_active by auto
  then have "new_b = [Fin (7 / 10), Fin (3 / 10)]"
    "new_b ! 0 = np_add (Fin 1) (np_mul (Fin (3 / 5)) (np_sub (Fin 1) (Fin (3 / 2))))"
    "new_b ! 1 = np_add (Fin 0) (np_mul (Fin (3 / 5)) (np_sub (Fin 2) (Fin (3 / 2))))"
    by (simp_all add: example_update_active)
  then have "Fin (7 / 10) = np_add (Fin 1) (np_mul (Fin (3 / 5)) (np_sub (Fin 1) (Fin (3 / 2))))"
    "Fin (3 / 10) = np_add (Fin 0) (np_mul (Fin (3 / 5)) (np_sub (Fin 2) (Fin (3 / 2))))"
    by simp_all
  moreover from update_step_weights [OF w v(2)] have
    "new_allocation_update ?s 2 = Inr ([Fin 0, Fin 0], [], NaN, Fin 0, [Fin 0, Fin 0])"
    by (simp add: example_update_unavailable)
  ultimately show ?thesis
    using w v by (simp add: example_update_active)
qed

section \<open>The normalisation\<close>

text \<open>
  C1: the code at a day with no available asset. On day 2 of the example market every
  opening price is 0: \<open>new_b\<close> is zero, line 153 divides by its 1-norm, and the vector
  that \<open>get_new_allocation\<close> returns is \<open>[NaN, NaN]\<close>, whose 1-norm is NaN and not 1.
\<close>

theorem get_new_allocation_norm_nan:
  "wf_olmar (example_olmar None [1 / 2, 1 / 2] 1 (13 / 10))
   \<and> valid_day (example_olmar None [1 / 2, 1 / 2] 1 (13 / 10)) 2
   \<and> new_allocation_update (example_olmar None [1 / 2, 1 / 2] 1 (13 / 10)) 2 =
       Inr ([Fin 0, Fin 0], [], NaN, Fin 0, [Fin 0, Fin 0])
   \<and> get_new_allocation (example_olmar None [1 / 2, 1 / 2] 1 (13 / 10)) 2 False =
       Inr [NaN, NaN]
   \<and> norm1 [NaN, NaN] = NaN"
  by (simp add: example_update_unavailable example_allocation_unavailable norm1_def np_sum_def)

text \<open>
  Where the vector that is normalised is not zero, line 153 does what the comment of
  line 151 says: in exact arithmetic the 1-norm of the result is 1.
\<close>

lemma get_new_allocation_norm1:
  fixes self :: olmar and day :: int and init :: bool
  defines "today_op \<equiv> get_op (data self) ! nat day"
  assumes "wf_olmar self" and "valid_day self day"
  shows "\<exists>v. get_new_allocation self day init = Inr v \<and> length v = num_stocks self
           \<and> ((if init \<and> data_train self = None then (\<exists>p\<in>set today_op. 0 < p)
                else (\<exists>ppr ppr_avail mean_ppr lam new_b.
                        new_allocation_update self day =
                          Inr (ppr, ppr_avail, mean_ppr, lam, new_b)
                        \<and> norm1 new_b \<noteq> Fin 0))
               \<longrightarrow> norm1 v = Fin 1)"
proof (cases "init \<and> data_train self = None")
  case True
  let ?k = "length (filter (\<lambda>p. 0 < p) today_op)"
  have g: "py_getitem (get_op (data self)) day = Inr today_op"
    using assms(3) by (simp add: valid_day_def py_getitem_valid today_op_def)
  have lo: "length today_op = num_stocks self"
    unfolding today_op_def using assms(2,3) by (rule today_op_length)
  have r: "get_new_allocation self day init =
             Inr (get_uniform_allocation (num_stocks self) today_op)"
    using True g by (simp add: get_new_allocation_def)
  have l: "length (get_uniform_allocation (num_stocks self) today_op) = num_stocks self"
    using lo by (simp add: get_uniform_allocation_Fin)
  have "norm1 (get_uniform_allocation (num_stocks self) today_op) = Fin 1"
    if a: "\<exists>p\<in>set today_op. 0 < p"
  proof -
    have "norm1 (map (\<lambda>p. Fin (if 0 < p then 1 / real ?k else 0)) today_op) =
            Fin (sum_list (map (\<lambda>p. \<bar>if 0 < p then 1 / real ?k else 0\<bar>) today_op))"
      by (rule norm1_Fin_map)
    moreover have "(\<lambda>p::real. \<bar>if 0 < p then 1 / real ?k else 0\<bar>) =
        (\<lambda>p. if 0 < p then 1 / real ?k else 0)"
      by (rule ext) simp
    ultimately show ?thesis
      using uniform_sum [OF a] get_uniform_allocation_available [OF a, of "num_stocks self"]
      by simp
  qed
  then show ?thesis
    using True r l by simp
next
  case False
  let ?n = "num_stocks self"
  let ?avail = "filter (\<lambda>i. 0 < today_op ! i) [0..<?n]"
  from assms(2,3) obtain pr l where
    u: "new_allocation_update self day =
           Inr (map Fin pr, map Fin (map ((!) pr) ?avail),
                np_mean (map Fin (map ((!) pr) ?avail)), Fin l,
                map (\<lambda>i. if 0 < pr ! i
                          then Fin (b self ! i
                                    + l * (pr ! i - sum_list (map ((!) pr) ?avail) / real (length ?avail)))
                          else Fin 0) [0..<?n])"
    unfolding today_op_def by (rule new_allocation_update_finite)
  let ?xs = "map (\<lambda>i. if 0 < pr ! i
                          then b self ! i
                                    + l * (pr ! i - sum_list (map ((!) pr) ?avail) / real (length ?avail))
                          else 0) [0..<?n]"
  have nb: "map (\<lambda>i. if 0 < pr ! i
                          then Fin (b self ! i
                                    + l * (pr ! i - sum_list (map ((!) pr) ?avail) / real (length ?avail)))
                          else Fin 0) [0..<?n] = map Fin ?xs"
    by simp
  have u': "new_allocation_update self day =
           Inr (map Fin pr, map Fin (map ((!) pr) ?avail),
                np_mean (map Fin (map ((!) pr) ?avail)), Fin l, map Fin ?xs)"
    using u unfolding nb .
  let ?v = "map (np_mul (np_div (Fin 1) (norm1 (map Fin ?xs)))) (map Fin ?xs)"
  have r: "get_new_allocation self day init = Inr ?v"
    using False by (simp only: get_new_allocation_def u' if_False sum.case prod.case Let_def)
  have len: "length ?v = ?n"
    by simp
  have "norm1 ?v = Fin 1" if "norm1 (map Fin ?xs) \<noteq> Fin 0"
  proof -
    have "sum_list (map abs ?xs) \<noteq> 0"
      using that unfolding norm1_Fin by simp
    then show ?thesis by (rule norm1_scaled)
  qed
  then show ?thesis
    using False r len u' by (simp only: if_False) auto
qed


text \<open>
  C2: the code at the input of the claim. On day 2 of the example market every opening
  price is 0: \<open>new_b\<close> is zero, its 1-norm \<open>sum_b\<close> is zero, and line 153 divides by it;
  \<open>get_new_allocation\<close> returns a vector of NaN and raises nothing.
\<close>

theorem zero_norm_not_signalled:
  "new_allocation_update (example_olmar None [1, 0] 1 (13 / 10)) 2 =
     Inr ([Fin 0, Fin 0], [], NaN, Fin 0, [Fin 0, Fin 0])
   \<and> norm1 [Fin 0, Fin 0] = Fin 0
   \<and> get_new_allocation (example_olmar None [1, 0] 1 (13 / 10)) 2 False = Inr [NaN, NaN]"
  by (simp add: example_update_unavailable example_allocation_unavailable norm1_def np_sum_def)

section \<open>The initial allocation\<close>

text \<open>
  C9, as amended: with \<open>init\<close> true and no training data, on a valid day,
  \<open>get_new_allocation\<close> returns the uniform allocation over the available assets: an
  asset whose opening price is not positive has the weight zero, every available asset
  has the weight 1 over the number of available assets, and the weights sum to 1 when
  an asset is available.
\<close>

theorem uniform_allocation_on_init:
  fixes self :: olmar and day :: int
  defines "today_op \<equiv> get_op (data self) ! nat day"
  defines "num_avail \<equiv> length (filter (\<lambda>p. 0 < p) today_op)"
  assumes "valid_day self day" and "data_train self = None"
  shows "\<exists>v. get_new_allocation self day True = Inr v \<and> length v = length today_op
           \<and> (\<forall>i<length today_op.
                 v ! i = (if 0 < today_op ! i then Fin (1 / real num_avail) else Fin 0))
           \<and> ((\<exists>p\<in>set today_op. 0 < p) \<longrightarrow> np_sum v = Fin 1)"
proof -
  let ?v = "get_uniform_allocation (num_stocks self) today_op"
  have g: "py_getitem (get_op (data self)) day = Inr today_op"
    using assms(3) by (simp add: valid_day_def py_getitem_valid today_op_def)
  have r: "get_new_allocation self day True = Inr ?v"
    using assms(4) g by (simp add: get_new_allocation_def)
  have l: "length ?v = length today_op"
    by (simp add: get_uniform_allocation_Fin)
  have e: "?v ! i = (if 0 < today_op ! i then Fin (1 / real num_avail) else Fin 0)"
    if "i < length today_op" for i
  proof (cases "0 < today_op ! i")
    case True
    then have "\<exists>p\<in>set today_op. 0 < p"
      using that nth_mem by blast
    then show ?thesis
      using that by (simp add: get_uniform_allocation_available num_avail_def)
  next
    case False
    then show ?thesis
      using that by (simp add: get_uniform_allocation_Fin)
  qed
  have "np_sum ?v = Fin 1" if a: "\<exists>p\<in>set today_op. 0 < p"
  proof -
    have "np_sum (map (\<lambda>p. Fin (if 0 < p then 1 / real num_avail else 0)) today_op) =
            Fin (sum_list (map (\<lambda>p. if 0 < p then 1 / real num_avail else 0) today_op))"
      by (rule np_sum_Fin_map)
    then show ?thesis
      unfolding num_avail_def
      using uniform_sum [OF a] get_uniform_allocation_available [OF a, of "num_stocks self"]
      by simp
  qed
  then show ?thesis
    using r l e by blast
qed

theorem uniform_allocation_on_init_witness:
  "valid_day (example_olmar None [1, 0] 1 (13 / 10)) 1
   \<and> valid_day (example_olmar None [1, 0] 1 (13 / 10)) 2
   \<and> data_train (example_olmar None [1, 0] 1 (13 / 10)) = None
   \<and> get_new_allocation (example_olmar None [1, 0] 1 (13 / 10)) 1 True =
       Inr [Fin (1 / 2), Fin (1 / 2)]
   \<and> np_sum [Fin (1 / 2), Fin (1 / 2)] = Fin 1
   \<and> get_new_allocation (example_olmar None [1, 0] 1 (13 / 10)) 2 True = Inr [Fin 0, Fin 0]"
proof -
  let ?s = "example_olmar None [1, 0] 1 (13 / 10)"
  have v: "valid_day ?s 1" "valid_day ?s 2" and t: "data_train ?s = None"
    by (simp_all add: example_fields)
  have "\<exists>p\<in>set (get_op (data ?s) ! nat 1). 0 < p"
    by (simp add: example_olmar_def example_market_def)
  then have "np_sum [Fin (1 / 2), Fin (1 / 2)] = Fin 1"
    using uniform_allocation_on_init [OF v(1) t]
    by (simp add: example_allocation_init)
  moreover have "get_new_allocation ?s 2 True = Inr [Fin 0, Fin 0]"
    using uniform_allocation_on_init [OF v(2) t]
    by (simp add: example_allocation_init)
  ultimately show ?thesis
    using v t by (simp add: example_allocation_init)
qed

text \<open>
  The claim as stated fails when no asset is available (day 2 of the example market):
  every weight is zero, and the weights sum to 0, not to 1.
\<close>

theorem uniform_allocation_none_available_counterexample:
  "valid_day (example_olmar None [1, 0] 1 (13 / 10)) 2
   \<and> data_train (example_olmar None [1, 0] 1 (13 / 10)) = None
   \<and> get_op (data (example_olmar None [1, 0] 1 (13 / 10))) ! nat 2 = [0, 0]
   \<and> get_new_allocation (example_olmar None [1, 0] 1 (13 / 10)) 2 True = Inr [Fin 0, Fin 0]
   \<and> np_sum [Fin 0, Fin 0] = Fin 0
   \<and> Fin 0 \<noteq> Fin 1"
  by (simp add: example_allocation_init example_fields np_sum_def)
    (simp add: example_olmar_def example_market_def)

section \<open>The hyperparameter tuner\<close>






end
